theory Spec2Isabelle
  imports Main
begin

section \<open>Errors\<close>

text \<open>
  The two exception classes thrown by the code: \<open>UserError\<close> (thrown by the credential
  accessor; the specification calls it a permission error) and the plain JavaScript
  \<open>Error\<close> (thrown by the validator; the specification calls it a schema error).
  Each carries its message.
\<close>

datatype error = UserError string | Error string

section \<open>IsConnectionValidator\<close>

text \<open>
  \<open>schema.types\<close> maps a type name to a type; a type has a \<open>name\<close> and a map
  \<open>fields\<close> from field names to fields (\<open>type_fields\<close> below). A field is a record,
  that is an object (\<open>JSObject\<close>); its content is left open (\<open>'o\<close>), as the
  validator only hands the field to the predicate \<open>isConnection\<close>, which is imported
  from another module and is a parameter here. Nothing keeps the map from holding a
  primitive value under a name, and the validator tests what it finds for
  truthiness: \<open>null\<close>, \<open>false\<close>, \<open>0\<close> and the empty string count as false, every
  object as true.
\<close>

datatype 'o js_value = JSNull | JSBool bool | JSNumber int | JSString string | JSObject 'o

fun truthy :: "'o js_value \<Rightarrow> bool" where
  "truthy JSNull = False"
| "truthy (JSBool b) = b"
| "truthy (JSNumber n) = (n \<noteq> 0)"
| "truthy (JSString s) = (s \<noteq> [])"
| "truthy (JSObject obj) = True"

record 'o schema_type =
  name :: string
  type_fields :: "string \<rightharpoonup> 'o js_value"

record 'o schema =
  types :: "string \<rightharpoonup> 'o schema_type"

text \<open>
  The validator is an immutable record with the single attribute \<open>typeParameter\<close>,
  whose default is \<open>undefined\<close> (\<open>None\<close>).
\<close>

record IsConnectionValidator =
  typeParameter :: "string option"

text \<open>
  \<open>m.get(k)\<close> on a map with string keys, where the key itself may be
  \<open>undefined\<close>: no entry is found then.
\<close>

definition get :: "(string \<rightharpoonup> 'v) \<Rightarrow> string option \<Rightarrow> 'v option" where
  "get m k = (case k of None \<Rightarrow> None | Some k' \<Rightarrow> m k')"

definition missing_field_message :: "string \<Rightarrow> string \<Rightarrow> string" where
  \<open>missing_field_message type_name field_name =
     ''Type "'' @ type_name @ ''" does not have a field "'' @ field_name @ ''".''\<close>

definition not_connection_message :: "string \<Rightarrow> string \<Rightarrow> string" where
  \<open>not_connection_message type_name field_name =
     ''Field "'' @ field_name @ ''" of "'' @ type_name @ ''" is not a connection. '' @
     ''Expected a connection field.''\<close>

text \<open>
  \<open>existingType\<close> is a type record or \<open>undefined\<close>; \<open>existingField\<close> is what the
  \<open>fields\<close> map holds under the name, or \<open>undefined\<close>. The test \<open>!existingField\<close>
  holds for \<open>undefined\<close> and for every falsy value.
\<close>

definition validate ::
  "('o js_value \<Rightarrow> bool) \<Rightarrow> IsConnectionValidator \<Rightarrow> 'o schema \<Rightarrow> string
     \<Rightarrow> (string \<rightharpoonup> string) \<Rightarrow> error + bool" where
  "validate isConnection this schema field_name parameters =
     (let existingType = get (types schema) (get parameters (typeParameter this)) in
      case existingType of
        Some t \<Rightarrow>
          (let existingField = type_fields t field_name in
           case existingField of
             None \<Rightarrow> Inl (Error (missing_field_message (name t) field_name))
           | Some f \<Rightarrow>
               if \<not> truthy f
               then Inl (Error (missing_field_message (name t) field_name))
               else if \<not> isConnection f
               then Inl (Error (not_connection_message (name t) field_name))
               else Inr True)
      | None \<Rightarrow> Inr True)"

section \<open>Credential types\<close>

text \<open>
  A GraphQL object type is a name, a description and its fields in the order of the
  object literal. A field has a type, a description, its arguments and its metadata
  flags. Resolvers are functions and are modelled on their own below; \<open>has_resolve\<close>
  records which fields carry one.
\<close>

datatype gql_type = GraphQLString | GraphQLInt | GraphQLEnumType string

record arg_def =
  arg_type :: gql_type
  arg_description :: string
  defaultValue :: "string option"

record field_def =
  field_type :: gql_type
  description :: string
  field_args :: "(string \<times> arg_def) list"
  metadata :: "(string \<times> bool) list"
  has_resolve :: bool

record object_type =
  type_name :: string
  type_description :: string
  object_fields :: "(string \<times> field_def) list"

definition plain_field :: "gql_type \<Rightarrow> string \<Rightarrow> field_def" where
  "plain_field t d =
     \<lparr>field_type = t, description = d, field_args = [], metadata = [], has_resolve = False\<rparr>"

definition getBaseCredentialFields :: "string \<Rightarrow> (string \<times> field_def) list" where
  \<open>getBaseCredentialFields providerName =
     [(''accessToken'',
         plain_field GraphQLString
           (''The OAuth access token obtained for the '' @ providerName @ '' '' @
            ''user during authentication.'')),
      (''displayName'',
         plain_field GraphQLString (''The '' @ providerName @ '' user's full name.'')),
      (''id'',
         (plain_field GraphQLString (''The '' @ providerName @ '' user's ID.''))
           \<lparr>metadata := [(''unique'', True)]\<rparr>)]\<close>

definition ReindexAuth0Credential :: object_type where
  \<open>ReindexAuth0Credential =
     \<lparr>type_name = ''ReindexAuth0Credential'',
      type_description = ''Auth0 user profile.'',
      object_fields =
        getBaseCredentialFields ''Auth0'' @
        [(''email'',
            plain_field GraphQLString ''The email address stored in the Auth0 user profile.''),
         (''picture'',
            plain_field GraphQLString ''The URL of the person's profile picture.'')]\<rparr>\<close>

definition ReindexGithubCredential :: object_type where
  \<open>ReindexGithubCredential =
     \<lparr>type_name = ''ReindexGithubCredential'',
      type_description = ''GitHub authentication credentials.'',
      object_fields =
        getBaseCredentialFields ''GitHub'' @
        [(''email'',
            plain_field GraphQLString ''The GitHub user's (public) email address.''),
         (''picture'',
            plain_field GraphQLString ''The URL of the person's profile picture.''),
         (''username'',
            plain_field GraphQLString ''The user's GitHub username.'')]\<rparr>\<close>

definition ReindexFacebookCredential :: object_type where
  \<open>ReindexFacebookCredential =
     \<lparr>type_name = ''ReindexFacebookCredential'',
      type_description = ''Facebook authentication credentials.'',
      object_fields =
        getBaseCredentialFields ''Facebook'' @
        [(''email'',
            plain_field GraphQLString ''The Facebook user's email address.''),
         (''picture'',
            \<lparr>field_type = GraphQLString,
             description = ''The URL of the person's profile picture.'',
             field_args =
               [(''height'',
                   \<lparr>arg_type = GraphQLInt,
                    arg_description = ''The height of this picture in pixels.'',
                    defaultValue = None\<rparr>),
                (''width'',
                   \<lparr>arg_type = GraphQLInt,
                    arg_description = ''The width of this picture in pixels.'',
                    defaultValue = None\<rparr>)],
             metadata = [(''computed'', True)],
             has_resolve = True\<rparr>)]\<rparr>\<close>

definition ReindexGoogleCredential :: object_type where
  \<open>ReindexGoogleCredential =
     \<lparr>type_name = ''ReindexGoogleCredential'',
      type_description = ''Google authentication credentials.'',
      object_fields =
        getBaseCredentialFields ''Google'' @
        [(''email'',
            plain_field GraphQLString ''Google account email address.''),
         (''picture'',
            \<lparr>field_type = GraphQLString,
             description = ''The URL of the person's profile picture.'',
             field_args =
               [(''size'',
                   \<lparr>arg_type = GraphQLInt,
                    arg_description =
                      ''Dimension of each side in pixels. If given, the '' @
                      ''image will be resized and cropped to a square.'',
                    defaultValue = None\<rparr>)],
             metadata = [],
             has_resolve = True\<rparr>)]\<rparr>\<close>

text \<open>
  The enum \<open>ReindexTwitterPictureSize\<close>. Its values are declared without an explicit
  \<open>value\<close>, so the value a resolver receives is the name of the enum member.
\<close>

datatype ReindexTwitterPictureSize = normal | bigger | mini | original

fun enum_value :: "ReindexTwitterPictureSize \<Rightarrow> string" where
  "enum_value normal = ''normal''"
| "enum_value bigger = ''bigger''"
| "enum_value mini = ''mini''"
| "enum_value original = ''original''"

definition ReindexTwitterCredential :: object_type where
  \<open>ReindexTwitterCredential =
     \<lparr>type_name = ''ReindexTwitterCredential'',
      type_description = ''Twitter authentication credentials.'',
      object_fields =
        getBaseCredentialFields ''Twitter'' @
        [(''accessTokenSecret'',
            plain_field GraphQLString
              (''The OAuth token secret obtained for the Twitter user '' @
               ''during authentication.'')),
         (''picture'',
            \<lparr>field_type = GraphQLString,
             description = ''The URL of the person's profile picture.'',
             field_args =
               [(''size'',
                   \<lparr>arg_type = GraphQLEnumType ''ReindexTwitterPictureSize'',
                    arg_description = ''Size of the profile picture.'',
                    defaultValue = Some ''original''\<rparr>)],
             metadata = [],
             has_resolve = True\<rparr>),
         (''username'',
            plain_field GraphQLString ''The user's Twitter screen name.'')]\<rparr>\<close>

text \<open>
  The fields of \<open>ReindexCredentialCollection\<close>: each provider key with the type of
  its credential, in the order of the source.
\<close>

definition ReindexCredentialCollection_fields :: "(string \<times> object_type) list" where
  "ReindexCredentialCollection_fields =
     [(''auth0'', ReindexAuth0Credential),
      (''facebook'', ReindexFacebookCredential),
      (''github'', ReindexGithubCredential),
      (''google'', ReindexGoogleCredential),
      (''twitter'', ReindexTwitterCredential)]"

definition field_names :: "object_type \<Rightarrow> string list" where
  "field_names t = map fst (object_fields t)"

section \<open>The credential accessor\<close>

text \<open>
  The caller's identity \<open>context.credentials\<close> has the flag \<open>isAdmin\<close> and the
  identifier \<open>userID\<close>; the parent user record has its node identifier under
  \<open>__node.id\<close> (\<open>node_id (node parent)\<close>) and its other properties, read as
  \<open>parent[key]\<close>, in \<open>props\<close>. Identifiers are opaque (\<open>'id\<close>); a property that the
  record does not hold reads as \<open>undefined\<close> (\<open>None\<close>).
\<close>

record 'id node =
  node_id :: 'id

record ('id, 'c) user =
  node :: "'id node"
  props :: "string \<rightharpoonup> 'c"

record 'id credentials =
  isAdmin :: bool
  userID :: 'id

record 'id resolve_context =
  credentials :: "'id credentials"

text \<open>The deep equality \<open>isEqual\<close> of lodash, on identifiers.\<close>

definition isEqual :: "'id \<Rightarrow> 'id \<Rightarrow> bool" where
  "isEqual a b = (a = b)"

definition createCredentialResolve ::
  "string \<Rightarrow> ('id, 'c) user \<Rightarrow> 'a \<Rightarrow> 'id resolve_context \<Rightarrow> error + 'c option" where
  \<open>createCredentialResolve provider parent args context =
     (let credentials = credentials context in
      if isAdmin credentials \<or> isEqual (userID credentials) (node_id (node parent))
      then Inr (props parent provider)
      else Inl (UserError
             (''User lacks permissions to read nodes of type `User` with fields '' @
              ''`credentials.'' @ provider @ ''`.'')))\<close>

section \<open>Picture resolvers\<close>

text \<open>
  A stored credential record, as far as the picture resolvers read it: the attribute
  \<open>id\<close> and the attribute \<open>picture\<close>, which is \<open>None\<close> when the record holds
  \<open>null\<close> or nothing.
\<close>

record credential =
  cred_id :: string
  picture :: "string option"

subsection \<open>Strings of numbers and query strings\<close>

text \<open>
  The decimal digits of a natural number, most significant first, pushed in front of
  an accumulator.
\<close>

definition digit :: "nat \<Rightarrow> char" where
  "digit d = ''0123456789'' ! (d mod 10)"

fun decimal_acc :: "nat \<Rightarrow> string \<Rightarrow> string" where
  "decimal_acc n acc =
     (if n < 10 then digit n # acc else decimal_acc (n div 10) (digit (n mod 10) # acc))"

declare decimal_acc.simps [simp del]

text \<open>
  An argument of type \<open>GraphQLInt\<close> is an integer that a JavaScript number holds
  exactly: its magnitude is at most \<open>2^53 - 1\<close> (the GraphQL library admits no other
  value). For such an integer \<open>i\<close>, \<open>String(i)\<close> is its decimal numeral: a minus
  sign for a negative number, then the digits. \<open>number_to_string\<close> is \<open>String\<close> on
  this range; the rendering of larger numbers, with an exponent, is not modelled.
\<close>

definition is_safe_integer :: "int \<Rightarrow> bool" where
  "is_safe_integer i = (- (2 ^ 53 - 1) \<le> i \<and> i \<le> 2 ^ 53 - 1)"

definition number_to_string :: "int \<Rightarrow> string" where
  "number_to_string i =
     (if 0 \<le> i then decimal_acc (nat i) [] else CHR ''-'' # decimal_acc (nat (- i)) [])"

fun join :: "string \<Rightarrow> string list \<Rightarrow> string" where
  "join sep [] = []"
| "join sep [x] = x"
| "join sep (x # y # ys) = x @ sep @ join sep (y # ys)"

subsection \<open>Facebook\<close>

record facebook_args =
  width :: "int option"
  height :: "int option"

text \<open>
  \<open>pick(args, 'width', 'height')\<close> of lodash: the object with these two keys, in this
  order, and the values \<open>args\<close> has for them.
\<close>

definition pick_width_height :: "facebook_args \<Rightarrow> (string \<times> int option) list" where
  "pick_width_height args = [(''width'', width args), (''height'', height args)]"

text \<open>
  \<open>Qs.stringify(object, {skipNulls: true})\<close> of the qs library, on an object whose
  values are integers or missing: a missing value (\<open>undefined\<close>, or \<open>null\<close> under
  \<open>skipNulls\<close>) is left out, every other entry becomes \<open>key=value\<close>, and the entries
  are joined by \<open>&\<close>. The keys and the decimal strings here need no percent-encoding.
\<close>

definition Qs_stringify :: "(string \<times> int option) list \<Rightarrow> string" where
  "Qs_stringify object =
     join ''&'' (concat (map (\<lambda>(k, v). case v of None \<Rightarrow> []
                                           | Some n \<Rightarrow> [k @ ''='' @ number_to_string n]) object))"

definition facebook_picture_resolve :: "credential \<Rightarrow> facebook_args \<Rightarrow> string" where
  "facebook_picture_resolve parent args =
     (let url = ''https://graph.facebook.com/v2.3/'' @ cred_id parent @ ''/picture'';
          queryString = Qs_stringify (pick_width_height args)
      in if queryString \<noteq> [] then url @ ''?'' @ queryString else url)"

subsection \<open>Google\<close>

text \<open>
  The object \<open>Url.parse(url, true)\<close> returns, as far as the resolver is concerned: the
  parsed \<open>query\<close> (an object: keys in insertion order, each with a string, a number
  once the resolver has stored one, or an array of strings for a repeated key), the
  \<open>search\<close> string, and in \<open>other\<close> all the properties the resolver neither reads
  nor writes (protocol, host, pathname, hash and so on).
\<close>

datatype query_value = Str string | Num int | Arr "string list"

record 'r urlObject =
  query :: "(string \<times> query_value) list"
  search :: "string option"
  other :: 'r

text \<open>
  Assignment to a property keeps the position of a key the object already has and
  appends a new key; \<open>delete\<close> removes the key.
\<close>

fun set_property :: "string \<Rightarrow> 'v \<Rightarrow> (string \<times> 'v) list \<Rightarrow> (string \<times> 'v) list" where
  "set_property k v [] = [(k, v)]"
| "set_property k v (p # ps) = (if fst p = k then (k, v) # ps else p # set_property k v ps)"

definition delete_property :: "string \<Rightarrow> (string \<times> 'v) list \<Rightarrow> (string \<times> 'v) list" where
  "delete_property k ps = filter (\<lambda>p. fst p \<noteq> k) ps"

record google_args =
  google_size :: "int option"

text \<open>
  \<open>Url.parse\<close> and \<open>Url.format\<close> belong to the platform's \<open>url\<close> module and are
  parameters of the resolver. The conditions \<open>!url\<close> and \<open>args.size\<close> test
  truthiness: the empty string and the number \<open>0\<close> count as false, like a missing
  value.
\<close>

definition google_picture_resolve ::
  "(string \<Rightarrow> 'r urlObject) \<Rightarrow> ('r urlObject \<Rightarrow> string) \<Rightarrow> credential \<Rightarrow> google_args
     \<Rightarrow> string option" where
  "google_picture_resolve Url_parse Url_format parent args =
     (case picture parent of
        None \<Rightarrow> None
      | Some url \<Rightarrow>
          if url = [] then None
          else
            (let urlObject = Url_parse url;
                 urlObject' =
                   (case google_size args of
                      Some n \<Rightarrow>
                        if n \<noteq> 0
                        then urlObject\<lparr>query := set_property ''sz'' (Num n) (query urlObject)\<rparr>
                        else urlObject\<lparr>query := delete_property ''sz'' (query urlObject)\<rparr>
                    | None \<Rightarrow> urlObject\<lparr>query := delete_property ''sz'' (query urlObject)\<rparr>)
             in Some (Url_format (urlObject'\<lparr>search := None\<rparr>))))"

subsection \<open>Twitter\<close>

text \<open>
  \<open>url.replace(/_normal\./, r)\<close> replaces the leftmost occurrence of the eight
  characters \<open>_normal.\<close> by \<open>r\<close> and leaves a string without them as it is. The
  replacement strings of the resolver contain no \<open>$\<close>, so they are taken literally.
\<close>

definition starts_with :: "string \<Rightarrow> string \<Rightarrow> bool" where
  "starts_with p s = (take (length p) s = p)"

fun replace_first :: "string \<Rightarrow> string \<Rightarrow> string \<Rightarrow> string" where
  "replace_first p r [] = (if p = [] then r else [])"
| "replace_first p r (c # cs) =
     (if starts_with p (c # cs) then r @ drop (length p) (c # cs)
      else c # replace_first p r cs)"

text \<open>
  \<open>args.size\<close> is a value of the enum, or \<open>undefined\<close> (\<open>None\<close>) when the query
  gives no size and the argument declares no default. String concatenation renders
  \<open>undefined\<close> as the word.
\<close>

record twitter_args =
  twitter_size :: "ReindexTwitterPictureSize option"

definition size_string :: "ReindexTwitterPictureSize option \<Rightarrow> string" where
  "size_string v = (case v of None \<Rightarrow> ''undefined'' | Some s \<Rightarrow> enum_value s)"

text \<open>
  The arguments a resolver receives: an argument the query gives is passed on; for
  one it does not give, the \<open>defaultValue\<close> declared for the argument in the field
  definition is taken, read as a value of the enum.
\<close>

definition declared_default :: "object_type \<Rightarrow> string \<Rightarrow> string \<Rightarrow> string option" where
  "declared_default t field_name arg_name =
     (case map_of (object_fields t) field_name of
        None \<Rightarrow> None
      | Some f \<Rightarrow>
          (case map_of (field_args f) arg_name of
             None \<Rightarrow> None
           | Some a \<Rightarrow> defaultValue a))"

definition enum_of_value :: "string \<Rightarrow> ReindexTwitterPictureSize option" where
  "enum_of_value v = find (\<lambda>s. enum_value s = v) [normal, bigger, mini, original]"

definition twitter_picture_args :: "ReindexTwitterPictureSize option \<Rightarrow> twitter_args" where
  "twitter_picture_args given =
     \<lparr>twitter_size =
        (case given of
           Some s \<Rightarrow> Some s
         | None \<Rightarrow>
             (case declared_default ReindexTwitterCredential ''picture'' ''size'' of
                None \<Rightarrow> None
              | Some v \<Rightarrow> enum_of_value v))\<rparr>"

definition twitter_picture_resolve :: "credential \<Rightarrow> twitter_args \<Rightarrow> string option" where
  "twitter_picture_resolve parent args =
     (case picture parent of
        None \<Rightarrow> None
      | Some url \<Rightarrow>
          if url = [] then None
          else if (case twitter_size args of
                     None \<Rightarrow> False
                   | Some s \<Rightarrow> enum_value s = ''original'')
          then Some (replace_first ''_normal.'' ''.'' url)
          else Some (replace_first ''_normal.''
                       (''_'' @ size_string (twitter_size args) @ ''.'') url))"

section \<open>Auxiliary notions for the statements\<close>

text \<open>\<open>occurs p s\<close>: the string \<open>p\<close> occurs in \<open>s\<close> at some position.\<close>

fun occurs :: "string \<Rightarrow> string \<Rightarrow> bool" where
  "occurs p [] = (p = [])"
| "occurs p (c # cs) = (starts_with p (c # cs) \<or> occurs p cs)"

text \<open>The number a string of decimal digits denotes.\<close>

definition decimal_value :: "string \<Rightarrow> nat" where
  "decimal_value s = foldl (\<lambda>a c. 10 * a + (of_char c - 48)) 0 s"

text \<open>
  The decimal numeral of an integer, said without the printing function: a non-empty
  string of digits that denotes the number and has no leading zero (the numeral of
  zero is \<open>0\<close>), after a minus sign when the integer is negative.
\<close>

definition is_digit :: "char \<Rightarrow> bool" where
  "is_digit c = (c \<in> set ''0123456789'')"

definition is_canonical_nat :: "nat \<Rightarrow> string \<Rightarrow> bool" where
  "is_canonical_nat n s =
     (s \<noteq> [] \<and> list_all is_digit s \<and> (hd s = CHR ''0'' \<longrightarrow> s = ''0'') \<and> decimal_value s = n)"

definition is_decimal_numeral :: "int \<Rightarrow> string \<Rightarrow> bool" where
  "is_decimal_numeral i s =
     (if 0 \<le> i then is_canonical_nat (nat i) s
      else s \<noteq> [] \<and> hd s = CHR ''-'' \<and> is_canonical_nat (nat (- i)) (tl s))"

text \<open>
  A simple instance of the pair \<open>Url.parse\<close>, \<open>Url.format\<close>, for the examples: it
  covers URLs whose query string has distinct keys and needs no escaping, and whose
  part before the query string the platform's parser gives back unchanged. The text
  before \<open>?\<close> and the fragment from \<open>#\<close> on are kept as they are in \<open>other\<close>; the
  query string is split at \<open>&\<close> and each entry at its first \<open>=\<close>. Formatting uses
  \<open>search\<close> when it is a non-empty string and the entries of \<open>query\<close> otherwise.
\<close>

fun split_first :: "char \<Rightarrow> string \<Rightarrow> string \<times> string option" where
  "split_first c [] = ([], None)"
| "split_first c (x # xs) =
     (if x = c then ([], Some xs)
      else (case split_first c xs of (a, b) \<Rightarrow> (x # a, b)))"

fun split_all :: "char \<Rightarrow> string \<Rightarrow> string list" where
  "split_all c [] = [[]]"
| "split_all c (x # xs) =
     (if x = c then [] # split_all c xs
      else (case split_all c xs of [] \<Rightarrow> [[x]] | y # ys \<Rightarrow> (x # y) # ys))"

definition simple_parse_query :: "string \<Rightarrow> (string \<times> query_value) list" where
  "simple_parse_query s =
     (if s = [] then []
      else map (\<lambda>kv. case split_first (CHR ''='') kv of
                         (k, None) \<Rightarrow> (k, Str [])
                       | (k, Some v) \<Rightarrow> (k, Str v))
             (split_all (CHR ''&'') s))"

definition simple_parse :: "string \<Rightarrow> (string \<times> string) urlObject" where
  "simple_parse url =
     (case split_first (CHR ''#'') url of (rest, h) \<Rightarrow>
      case split_first (CHR ''?'') rest of (base, q) \<Rightarrow>
        \<lparr>query = (case q of None \<Rightarrow> [] | Some s \<Rightarrow> simple_parse_query s),
         search = (case q of None \<Rightarrow> Some [] | Some s \<Rightarrow> Some (''?'' @ s)),
         other = (base, (case h of None \<Rightarrow> [] | Some f \<Rightarrow> ''#'' @ f))\<rparr>)"

definition simple_stringify :: "(string \<times> query_value) list \<Rightarrow> string" where
  "simple_stringify q =
     join ''&'' (concat (map (\<lambda>(k, v). case v of
                                Str s \<Rightarrow> [k @ ''='' @ s]
                              | Num n \<Rightarrow> [k @ ''='' @ number_to_string n]
                              | Arr xs \<Rightarrow> map (\<lambda>x. k @ ''='' @ x) xs) q))"

definition simple_format :: "(string \<times> string) urlObject \<Rightarrow> string" where
  "simple_format u =
     (let q = simple_stringify (query u);
          s = (case search u of
                 Some s \<Rightarrow> if s \<noteq> [] then s else if q \<noteq> [] then ''?'' @ q else []
               | None \<Rightarrow> if q \<noteq> [] then ''?'' @ q else [])
      in fst (other u) @ s @ snd (other u))"

section \<open>Auxiliary lemmas\<close>

subsection \<open>Falsy values in the fields map\<close>

lemma validate_falsy_field:
  assumes "get parameters (typeParameter this) = Some n"
    and "types schema n = Some t"
    and "type_fields t field_name = Some f"
    and "\<not> truthy f"
  shows "validate isConnection this schema field_name parameters =
           Inl (Error (missing_field_message (name t) field_name))"
  using assms by (simp add: validate_def get_def)

subsection \<open>Objects as association lists\<close>

lemma map_of_set_property: "map_of (set_property k v ps) = (map_of ps)(k \<mapsto> v)"
  by (induction ps) auto

lemma map_of_delete_property: "map_of (delete_property k ps) = (map_of ps)(k := None)"
  by (induction ps) (auto simp: delete_property_def)

subsection \<open>Occurrences and the replacement of the first one\<close>

lemma occurs_iff: "occurs p s \<longleftrightarrow> (\<exists>a b. s = a @ p @ b)"
proof (induction s)
  case Nil
  then show ?case by auto
next
  case (Cons c cs)
  show ?case
  proof
    assume "occurs p (c # cs)"
    then consider "starts_with p (c # cs)" | "occurs p cs" by auto
    then show "\<exists>a b. c # cs = a @ p @ b"
    proof cases
      case 1
      then have "c # cs = [] @ p @ drop (length p) (c # cs)"
        by (metis append_Nil append_take_drop_id starts_with_def)
      then show ?thesis by blast
    next
      case 2
      with Cons obtain a b where "cs = a @ p @ b" by blast
      then have "c # cs = (c # a) @ p @ b" by simp
      then show ?thesis by blast
    qed
  next
    assume "\<exists>a b. c # cs = a @ p @ b"
    then obtain a b where ab: "c # cs = a @ p @ b" by blast
    show "occurs p (c # cs)"
    proof (cases a)
      case Nil
      with ab have "starts_with p (c # cs)" by (simp add: starts_with_def)
      then show ?thesis by simp
    next
      case (Cons x a')
      with ab have "cs = a' @ p @ b" by simp
      with Cons.IH show ?thesis by auto
    qed
  qed
qed

lemma token_underscore_only_first:
  assumes "''_normal.'' ! k = CHR ''_''" and "k < 8"
  shows "k = 0"
proof -
  from \<open>k < 8\<close> consider "k = 0" | "k = 1" | "k = 2" | "k = 3" | "k = 4" | "k = 5" | "k = 6" | "k = 7"
    by linarith
  then show ?thesis using assms(1) by cases simp_all
qed

lemma no_straddle:
  assumes "starts_with ''_normal.'' (xs @ ''_normal.'' @ ys)" and "length xs < 8"
  shows "xs = []"
proof -
  let ?zs = "xs @ ''_normal.'' @ ys"
  have len: "length ''_normal.'' = 8" by simp
  from assms(1) have "take (length ''_normal.'') ?zs = ''_normal.''"
    unfolding starts_with_def .
  then have eq: "take 8 ?zs = ''_normal.''"
    by (simp only: len)
  have "take 8 ?zs ! length xs = ?zs ! length xs"
    using assms(2) by (rule nth_take)
  also have "\<dots> = CHR ''_''"
    by (simp only: nth_append_length append.simps)
  finally have "''_normal.'' ! length xs = CHR ''_''"
    using eq by simp
  then have "length xs = 0"
    using assms(2) by (rule token_underscore_only_first)
  then show ?thesis by simp
qed

lemma starts_with_shorter:
  assumes "starts_with ''_normal.'' (xs @ ''_normal.'' @ ys)" and "xs \<noteq> []"
  shows "starts_with ''_normal.'' xs"
proof (cases "length xs < 8")
  case True
  with assms show ?thesis using no_straddle by blast
next
  case False
  then have "take (length ''_normal.'') (xs @ ''_normal.'' @ ys) = take (length ''_normal.'') xs"
    by simp
  with assms(1) show ?thesis by (simp only: starts_with_def)
qed

lemma replace_first_token:
  assumes "\<not> occurs ''_normal.'' pre"
  shows "replace_first ''_normal.'' r (pre @ ''_normal.'' @ post) = pre @ r @ post"
  using assms
proof (induction pre)
  case Nil
  show ?case by (simp add: starts_with_def)
next
  case (Cons c cs)
  from Cons.prems have a: "\<not> starts_with ''_normal.'' (c # cs)" and b: "\<not> occurs ''_normal.'' cs"
    by simp_all
  have "\<not> starts_with ''_normal.'' ((c # cs) @ ''_normal.'' @ post)"
    using a starts_with_shorter [of "c # cs" post] by blast
  then have "replace_first ''_normal.'' r ((c # cs) @ ''_normal.'' @ post)
             = c # replace_first ''_normal.'' r (cs @ ''_normal.'' @ post)"
    by simp
  with Cons.IH [OF b] show ?case by simp
qed

lemma replace_first_absent:
  "\<not> occurs p s \<Longrightarrow> replace_first p r s = s"
  by (induction s) auto

subsection \<open>Decimal strings\<close>

lemma decimal_acc_nonempty: "decimal_acc n acc \<noteq> []"
  by (induction n acc rule: decimal_acc.induct) (subst decimal_acc.simps, simp)

lemma number_to_string_nonempty: "number_to_string i \<noteq> []"
  by (simp add: number_to_string_def decimal_acc_nonempty)

lemma digit_cases:
  "d < (10::nat) \<Longrightarrow>
     d = 0 \<or> d = 1 \<or> d = 2 \<or> d = 3 \<or> d = 4 \<or> d = 5 \<or> d = 6 \<or> d = 7 \<or> d = 8 \<or> d = 9"
  by presburger

lemma digit_value:
  assumes "d < (10::nat)"
  shows "of_char (digit d) = 48 + d"
  using digit_cases [OF assms] by (elim disjE) (simp_all add: digit_def)

lemma decimal_acc_append: "decimal_acc n acc = decimal_acc n [] @ acc"
proof (induction n arbitrary: acc rule: less_induct)
  case (less n)
  show ?case
  proof (cases "n < 10")
    case True
    then show ?thesis by (simp add: decimal_acc.simps [of n])
  next
    case False
    then have lt: "n div 10 < n" by simp
    have "decimal_acc n acc = decimal_acc (n div 10) (digit (n mod 10) # acc)"
      using False by (simp add: decimal_acc.simps [of n acc])
    also have "\<dots> = decimal_acc (n div 10) [] @ digit (n mod 10) # acc"
      by (rule less.IH [OF lt])
    finally have a: "decimal_acc n acc = decimal_acc (n div 10) [] @ digit (n mod 10) # acc" .
    have "decimal_acc n [] = decimal_acc (n div 10) [digit (n mod 10)]"
      using False by (simp add: decimal_acc.simps [of n "[]"])
    also have "\<dots> = decimal_acc (n div 10) [] @ [digit (n mod 10)]"
      by (rule less.IH [OF lt])
    finally show ?thesis using a by simp
  qed
qed

lemma decimal_acc_step:
  "\<not> n < 10 \<Longrightarrow> decimal_acc n [] = decimal_acc (n div 10) [] @ [digit (n mod 10)]"
  using decimal_acc_append [of "n div 10" "[digit (n mod 10)]"]
  by (simp add: decimal_acc.simps [of n "[]"])

lemma decimal_value_decimal_acc: "decimal_value (decimal_acc n []) = n"
proof (induction n rule: less_induct)
  case (less n)
  show ?case
  proof (cases "n < 10")
    case True
    then show ?thesis
      by (simp add: decimal_acc.simps [of n] decimal_value_def digit_value)
  next
    case False
    then have "decimal_value (decimal_acc (n div 10) []) = n div 10"
      by (intro less.IH) simp
    then show ?thesis
      using False by (simp add: decimal_acc_step decimal_value_def digit_value)
  qed
qed

lemma decimal_value_snoc:
  "decimal_value (s @ [c]) = 10 * decimal_value s + (of_char c - 48)"
  by (simp add: decimal_value_def)

lemma is_digit_digit: "is_digit (digit d)"
proof -
  have "d mod 10 < 10" by simp
  from digit_cases [OF this] show ?thesis
    by (elim disjE) (simp_all add: digit_def is_digit_def)
qed

lemma digit_mod: "digit (d mod 10) = digit d"
  by (simp add: digit_def)

lemma digit_of_char:
  assumes "is_digit c"
  shows "(of_char c :: nat) - 48 < 10 \<and> digit (of_char c - 48) = c
         \<and> (c \<noteq> CHR ''0'' \<longrightarrow> 0 < (of_char c :: nat) - 48)"
  using assms unfolding is_digit_def by (auto simp add: digit_def)

lemma digit_zero: "digit 0 = CHR ''0''"
  by (simp add: digit_def)

lemma digit_nonzero: "0 < d \<Longrightarrow> d < 10 \<Longrightarrow> digit d \<noteq> CHR ''0''"
  using digit_cases [of d] by (auto simp add: digit_def)

lemma foldl_decimal_ge:
  "a \<le> foldl (\<lambda>a c. 10 * a + (of_char c - 48)) (a::nat) cs"
proof (induction cs arbitrary: a)
  case Nil
  show ?case by simp
next
  case (Cons c cs)
  have "a \<le> 10 * a + (of_char c - 48)" by simp
  also have "\<dots> \<le> foldl (\<lambda>a c. 10 * a + (of_char c - 48)) (10 * a + (of_char c - 48)) cs"
    by (rule Cons.IH)
  finally show ?case by simp
qed

lemma decimal_value_positive:
  assumes "s \<noteq> []" and "list_all is_digit s" and "hd s \<noteq> CHR ''0''"
  shows "0 < decimal_value s"
proof -
  from assms(1) obtain c cs where s: "s = c # cs" by (cases s) auto
  with assms have "is_digit c" and "c \<noteq> CHR ''0''" by simp_all
  then have "0 < (of_char c :: nat) - 48" using digit_of_char by blast
  moreover have "(of_char c :: nat) - 48 \<le> decimal_value s"
    using foldl_decimal_ge [of "of_char c - 48" cs] by (simp add: s decimal_value_def)
  ultimately show ?thesis by linarith
qed

lemma decimal_acc_digits: "list_all is_digit (decimal_acc n [])"
proof (induction n rule: less_induct)
  case (less n)
  show ?case
  proof (cases "n < 10")
    case True
    then show ?thesis by (simp add: decimal_acc.simps [of n] is_digit_digit)
  next
    case False
    then have "list_all is_digit (decimal_acc (n div 10) [])" by (intro less.IH) simp
    with False show ?thesis by (simp add: decimal_acc_step is_digit_digit)
  qed
qed

lemma decimal_acc_no_leading_zero: "0 < n \<Longrightarrow> hd (decimal_acc n []) \<noteq> CHR ''0''"
proof (induction n rule: less_induct)
  case (less n)
  show ?case
  proof (cases "n < 10")
    case True
    with less.prems show ?thesis by (simp add: decimal_acc.simps [of n] digit_nonzero)
  next
    case False
    then have "hd (decimal_acc (n div 10) []) \<noteq> CHR ''0''" by (intro less.IH) simp_all
    with False show ?thesis by (simp add: decimal_acc_step decimal_acc_nonempty)
  qed
qed

lemma decimal_acc_zero: "decimal_acc 0 [] = ''0''"
  by (simp add: decimal_acc.simps digit_def)

lemma decimal_acc_canonical: "is_canonical_nat n (decimal_acc n [])"
proof (cases "n = 0")
  case True
  then show ?thesis
    by (simp add: is_canonical_nat_def decimal_acc_zero is_digit_def decimal_value_def)
next
  case False
  then show ?thesis
    by (simp add: is_canonical_nat_def decimal_acc_nonempty decimal_acc_digits
        decimal_acc_no_leading_zero decimal_value_decimal_acc)
qed

lemma canonical_unique: "is_canonical_nat n s \<Longrightarrow> s = decimal_acc n []"
proof (induction n arbitrary: s rule: less_induct)
  case (less n)
  from less.prems have ne: "s \<noteq> []" and dg: "list_all is_digit s"
    and lz: "hd s = CHR ''0'' \<longrightarrow> s = ''0''" and val: "decimal_value s = n"
    by (simp_all add: is_canonical_nat_def)
  from ne obtain s0 c where s: "s = s0 @ [c]" by (cases s rule: rev_cases) auto
  with dg have dc: "is_digit c" and d0: "list_all is_digit s0" by simp_all
  let ?d = "(of_char c :: nat) - 48"
  from dc have d10: "?d < 10" and dd: "digit ?d = c" using digit_of_char by blast+
  from val have n: "n = 10 * decimal_value s0 + ?d" by (simp add: s decimal_value_snoc)
  show ?case
  proof (cases "s0 = []")
    case True
    with n d10 have small: "n < 10" and nd: "n = ?d" by (simp_all add: decimal_value_def)
    from small have "decimal_acc n [] = [digit n]" by (simp add: decimal_acc.simps [of n])
    also have "\<dots> = [c]" by (simp only: nd dd)
    finally show ?thesis by (simp add: s True)
  next
    case False
    then have hd: "hd s0 = hd s" by (simp add: s)
    have "hd s0 \<noteq> CHR ''0''"
    proof
      assume "hd s0 = CHR ''0''"
      with hd lz have "s = ''0''" by simp
      with s False show False by (cases s0) auto
    qed
    with False d0 have pos: "0 < decimal_value s0" by (rule decimal_value_positive)
    let ?m = "decimal_value s0"
    from n d10 pos have big: "\<not> n < 10" and dv: "n div 10 = ?m" and md: "n mod 10 = ?d"
      by simp_all
    from big dv have "?m < n" by simp
    moreover have "is_canonical_nat ?m s0"
      using False d0 \<open>hd s0 \<noteq> CHR ''0''\<close> by (simp add: is_canonical_nat_def)
    ultimately have "s0 = decimal_acc ?m []" by (rule less.IH)
    then show ?thesis
      using big by (simp add: s decimal_acc_step dv md dd)
  qed
qed

lemma decimal_numeral_iff: "is_decimal_numeral i s \<longleftrightarrow> s = number_to_string i"
proof (cases "0 \<le> i")
  case True
  then show ?thesis
    using canonical_unique [of "nat i" s] decimal_acc_canonical [of "nat i"]
    by (auto simp add: is_decimal_numeral_def number_to_string_def)
next
  case False
  show ?thesis
  proof
    assume "is_decimal_numeral i s"
    with False have ne: "s \<noteq> []" and h: "hd s = CHR ''-''"
      and c: "is_canonical_nat (nat (- i)) (tl s)"
      by (simp_all add: is_decimal_numeral_def)
    from c have "tl s = decimal_acc (nat (- i)) []" by (rule canonical_unique)
    with ne h have "s = CHR ''-'' # decimal_acc (nat (- i)) []" by (cases s) auto
    with False show "s = number_to_string i" by (simp add: number_to_string_def)
  next
    assume "s = number_to_string i"
    with False show "is_decimal_numeral i s"
      by (simp add: is_decimal_numeral_def number_to_string_def decimal_acc_canonical)
  qed
qed

subsection \<open>The first occurrence of a string\<close>

lemma starts_with_extend:
  assumes "starts_with p xs"
  shows "starts_with p (xs @ ys)"
proof -
  from assms have t: "take (length p) xs = p" by (simp only: starts_with_def)
  have "length p = length (take (length p) xs)" by (simp only: t)
  then have "length p \<le> length xs" by simp
  then have "take (length p) (xs @ ys) = take (length p) xs" by simp
  with t show ?thesis by (simp only: starts_with_def)
qed

lemma first_occurrence:
  assumes "p \<noteq> []" and "occurs p s"
  shows "\<exists>pre post. s = pre @ p @ post \<and> \<not> occurs p pre"
  using assms(2)
proof (induction s)
  case Nil
  with assms(1) show ?case by simp
next
  case (Cons c cs)
  show ?case
  proof (cases "starts_with p (c # cs)")
    case True
    then have "c # cs = [] @ p @ drop (length p) (c # cs)"
      by (metis append_Nil append_take_drop_id starts_with_def)
    moreover have "\<not> occurs p []" using assms(1) by simp
    ultimately show ?thesis by blast
  next
    case False
    with Cons.prems have "occurs p cs" by simp
    with Cons.IH obtain pre post where cs: "cs = pre @ p @ post" and n: "\<not> occurs p pre"
      by blast
    have "\<not> starts_with p (c # pre)"
    proof
      assume "starts_with p (c # pre)"
      then have "starts_with p ((c # pre) @ p @ post)" by (rule starts_with_extend)
      with False cs show False by simp
    qed
    with n have "\<not> occurs p (c # pre)" by simp
    moreover have "c # cs = (c # pre) @ p @ post" by (simp add: cs)
    ultimately show ?thesis by blast
  qed
qed

section \<open>Properties of the validator\<close>

text \<open>
  C2. When looking up \<open>parameters[typeParameter]\<close> yields no value, or the type name it
  yields is absent from \<open>schema.types\<close>, \<open>validate\<close> checks nothing further and returns
  \<open>true\<close>; no error is raised.
\<close>

theorem validate_absent_type_true:
  assumes "get parameters (typeParameter this) = None
           \<or> (\<exists>n. get parameters (typeParameter this) = Some n \<and> types schema n = None)"
  shows "validate isConnection this schema field_name parameters = Inr True"
  using assms by (auto simp: validate_def get_def)

theorem validate_absent_type_true_witness:
  "(get [''type'' \<mapsto> ''User''] (typeParameter \<lparr>typeParameter = Some ''type''\<rparr>) = None
    \<or> (\<exists>n. get [''type'' \<mapsto> ''User''] (typeParameter \<lparr>typeParameter = Some ''type''\<rparr>) = Some n
          \<and> types \<lparr>types = [''Post'' \<mapsto> \<lparr>name = ''Post'',
                        type_fields = [''comments'' \<mapsto> JSObject ''Connection'']\<rparr>]\<rparr> n
              = None))
   \<and> validate (\<lambda>f. f = JSObject ''Connection'') \<lparr>typeParameter = Some ''type''\<rparr>
        \<lparr>types = [''Post'' \<mapsto> \<lparr>name = ''Post'',
                 type_fields = [''comments'' \<mapsto> JSObject ''Connection'']\<rparr>]\<rparr>
        ''comments'' [''type'' \<mapsto> ''User''] = Inr True"
  using validate_absent_type_true
    [of "[''type'' \<mapsto> ''User'']" "\<lparr>typeParameter = Some ''type''\<rparr>"
        "\<lparr>types = [''Post'' \<mapsto> \<lparr>name = ''Post'',
                 type_fields = [''comments'' \<mapsto> JSObject ''Connection'']\<rparr>]\<rparr>"
        "\<lambda>f. f = JSObject ''Connection''" "''comments''"]
  by (simp add: get_def)

text \<open>
  C3. When the referenced type exists in \<open>schema.types\<close> but has no field of the given
  name, \<open>validate\<close> fails with an error whose message is exactly
  \<open>Type "<TypeName>" does not have a field "<fieldName>".\<close>, where the type name is the
  \<open>name\<close> attribute of the type found.
\<close>

theorem validate_missing_field:
  assumes "get parameters (typeParameter this) = Some n"
    and "types schema n = Some t"
    and "type_fields t field_name = None"
  shows \<open>validate isConnection this schema field_name parameters =
           Inl (Error (''Type "'' @ name t @ ''" does not have a field "'' @ field_name @ ''".''))\<close>
  using assms by (simp add: validate_def get_def missing_field_message_def)

theorem validate_missing_field_witness:
  \<open>get [''type'' \<mapsto> ''User''] (typeParameter \<lparr>typeParameter = Some ''type''\<rparr>) = Some ''User''
   \<and> types \<lparr>types = [''User'' \<mapsto> \<lparr>name = ''User'',
                 type_fields = [''posts'' \<mapsto> JSObject ''Connection'']\<rparr>]\<rparr> ''User''
       = Some \<lparr>name = ''User'', type_fields = [''posts'' \<mapsto> JSObject ''Connection'']\<rparr>
   \<and> type_fields \<lparr>name = ''User'', type_fields = [''posts'' \<mapsto> JSObject ''Connection'']\<rparr>
        ''comments'' = None
   \<and> validate (\<lambda>f. f = JSObject ''Connection'') \<lparr>typeParameter = Some ''type''\<rparr>
        \<lparr>types = [''User'' \<mapsto> \<lparr>name = ''User'',
                 type_fields = [''posts'' \<mapsto> JSObject ''Connection'']\<rparr>]\<rparr>
        ''comments'' [''type'' \<mapsto> ''User'']
       = Inl (Error ''Type "User" does not have a field "comments".'')\<close>
  using validate_missing_field
    [of "[''type'' \<mapsto> ''User'']" "\<lparr>typeParameter = Some ''type''\<rparr>" "''User''"
        "\<lparr>types = [''User'' \<mapsto> \<lparr>name = ''User'',
                 type_fields = [''posts'' \<mapsto> JSObject ''Connection'']\<rparr>]\<rparr>"
        "\<lparr>name = ''User'', type_fields = [''posts'' \<mapsto> JSObject ''Connection'']\<rparr>"
        "''comments''" "\<lambda>f. f = JSObject ''Connection''"]
  by (simp add: get_def)

text \<open>
  C4. When the referenced type exists and has the named field (a field record, which
  as an object is truthy), \<open>validate\<close> fails with the message
  \<open>Field "<fieldName>" of "<TypeName>" is not a connection. Expected a connection
  field.\<close> exactly when the predicate \<open>isConnection\<close> is false on the field, and
  returns \<open>true\<close> otherwise.
\<close>

theorem validate_connection_check:
  assumes "get parameters (typeParameter this) = Some n"
    and "types schema n = Some t"
    and "type_fields t field_name = Some f"
    and "truthy f"
  shows \<open>(validate isConnection this schema field_name parameters =
            Inl (Error (''Field "'' @ field_name @ ''" of "'' @ name t @
                        ''" is not a connection. Expected a connection field.''))
          \<longleftrightarrow> \<not> isConnection f)
         \<and> (isConnection f \<longrightarrow>
              validate isConnection this schema field_name parameters = Inr True)\<close>
  using assms by (simp add: validate_def get_def not_connection_message_def)

theorem validate_connection_check_witness:
  \<open>get [''type'' \<mapsto> ''User''] (typeParameter \<lparr>typeParameter = Some ''type''\<rparr>) = Some ''User''
   \<and> types \<lparr>types = [''User'' \<mapsto> \<lparr>name = ''User'',
                 type_fields = [''posts'' \<mapsto> JSObject ''Connection'',
                                ''email'' \<mapsto> JSObject ''String'']\<rparr>]\<rparr> ''User''
       = Some \<lparr>name = ''User'',
               type_fields = [''posts'' \<mapsto> JSObject ''Connection'',
                              ''email'' \<mapsto> JSObject ''String'']\<rparr>
   \<and> type_fields \<lparr>name = ''User'',
                    type_fields = [''posts'' \<mapsto> JSObject ''Connection'',
                                   ''email'' \<mapsto> JSObject ''String'']\<rparr>
        ''email'' = Some (JSObject ''String'')
   \<and> truthy (JSObject ''String'')
   \<and> type_fields \<lparr>name = ''User'',
                    type_fields = [''posts'' \<mapsto> JSObject ''Connection'',
                                   ''email'' \<mapsto> JSObject ''String'']\<rparr>
        ''posts'' = Some (JSObject ''Connection'')
   \<and> truthy (JSObject ''Connection'')
   \<and> validate (\<lambda>f. f = JSObject ''Connection'') \<lparr>typeParameter = Some ''type''\<rparr>
        \<lparr>types = [''User'' \<mapsto> \<lparr>name = ''User'',
                 type_fields = [''posts'' \<mapsto> JSObject ''Connection'',
                                ''email'' \<mapsto> JSObject ''String'']\<rparr>]\<rparr>
        ''email'' [''type'' \<mapsto> ''User'']
       = Inl (Error ''Field "email" of "User" is not a connection. Expected a connection field.'')
   \<and> validate (\<lambda>f. f = JSObject ''Connection'') \<lparr>typeParameter = Some ''type''\<rparr>
        \<lparr>types = [''User'' \<mapsto> \<lparr>name = ''User'',
                 type_fields = [''posts'' \<mapsto> JSObject ''Connection'',
                                ''email'' \<mapsto> JSObject ''String'']\<rparr>]\<rparr>
        ''posts'' [''type'' \<mapsto> ''User'']
       = Inr True\<close>
  using
    validate_connection_check
      [of "[''type'' \<mapsto> ''User'']" "\<lparr>typeParameter = Some ''type''\<rparr>" "''User''"
          "\<lparr>types = [''User'' \<mapsto> \<lparr>name = ''User'',
                 type_fields = [''posts'' \<mapsto> JSObject ''Connection'',
                                ''email'' \<mapsto> JSObject ''String'']\<rparr>]\<rparr>"
          "\<lparr>name = ''User'',
            type_fields = [''posts'' \<mapsto> JSObject ''Connection'',
                           ''email'' \<mapsto> JSObject ''String'']\<rparr>"
          "''email''" "JSObject ''String''" "\<lambda>f. f = JSObject ''Connection''"]
    validate_connection_check
      [of "[''type'' \<mapsto> ''User'']" "\<lparr>typeParameter = Some ''type''\<rparr>" "''User''"
          "\<lparr>types = [''User'' \<mapsto> \<lparr>name = ''User'',
                 type_fields = [''posts'' \<mapsto> JSObject ''Connection'',
                                ''email'' \<mapsto> JSObject ''String'']\<rparr>]\<rparr>"
          "\<lparr>name = ''User'',
            type_fields = [''posts'' \<mapsto> JSObject ''Connection'',
                           ''email'' \<mapsto> JSObject ''String'']\<rparr>"
          "''posts''" "JSObject ''Connection''" "\<lambda>f. f = JSObject ''Connection''"]
  by (simp add: get_def)

section \<open>Properties of the credential types\<close>

text \<open>
  C8. For each of the five providers, the generated credential type has exactly the
  three base fields \<open>accessToken\<close>, \<open>displayName\<close>, \<open>id\<close> and the extras of that
  provider (Auth0, Facebook and Google: \<open>email\<close>, \<open>picture\<close>; GitHub: \<open>email\<close>,
  \<open>picture\<close>, \<open>username\<close>; Twitter: \<open>accessTokenSecret\<close>, \<open>picture\<close>,
  \<open>username\<close>), each once, and no other field. The collection has exactly these five
  provider keys.
\<close>

theorem credential_type_fields:
  "map fst ReindexCredentialCollection_fields =
     [''auth0'', ''facebook'', ''github'', ''google'', ''twitter'']
   \<and> map_of ReindexCredentialCollection_fields ''auth0'' = Some ReindexAuth0Credential
   \<and> map_of ReindexCredentialCollection_fields ''github'' = Some ReindexGithubCredential
   \<and> map_of ReindexCredentialCollection_fields ''facebook'' = Some ReindexFacebookCredential
   \<and> map_of ReindexCredentialCollection_fields ''google'' = Some ReindexGoogleCredential
   \<and> map_of ReindexCredentialCollection_fields ''twitter'' = Some ReindexTwitterCredential
   \<and> field_names ReindexAuth0Credential =
        [''accessToken'', ''displayName'', ''id''] @ [''email'', ''picture'']
   \<and> field_names ReindexGithubCredential =
        [''accessToken'', ''displayName'', ''id''] @ [''email'', ''picture'', ''username'']
   \<and> field_names ReindexFacebookCredential =
        [''accessToken'', ''displayName'', ''id''] @ [''email'', ''picture'']
   \<and> field_names ReindexGoogleCredential =
        [''accessToken'', ''displayName'', ''id''] @ [''email'', ''picture'']
   \<and> field_names ReindexTwitterCredential =
        [''accessToken'', ''displayName'', ''id''] @
        [''accessTokenSecret'', ''picture'', ''username'']"
  by (simp add: ReindexCredentialCollection_fields_def field_names_def
      ReindexAuth0Credential_def ReindexGithubCredential_def ReindexFacebookCredential_def
      ReindexGoogleCredential_def ReindexTwitterCredential_def getBaseCredentialFields_def)

section \<open>Properties of the credential accessor\<close>

text \<open>
  C1. Resolving the credential field of a provider returns the stored sub-record
  \<open>parent[provider]\<close> when the caller's \<open>isAdmin\<close> flag is true or the caller's
  \<open>userID\<close> equals \<open>parent.__node.id\<close>; otherwise it fails with the error whose
  message names the field path \<open>credentials.<provider>\<close>. With \<open>isAdmin\<close> true it
  succeeds whatever \<open>userID\<close> is.
\<close>

theorem credential_resolve_permission:
  "(isAdmin (credentials ctx) \<or> userID (credentials ctx) = node_id (node parent)
      \<longrightarrow> createCredentialResolve provider parent args ctx = Inr (props parent provider))
   \<and> (\<not> isAdmin (credentials ctx) \<and> userID (credentials ctx) \<noteq> node_id (node parent)
      \<longrightarrow> createCredentialResolve provider parent args ctx =
            Inl (UserError (''User lacks permissions to read nodes of type `User` with fields `'' @
                            ''credentials.'' @ provider @ ''`.'')))
   \<and> (isAdmin (credentials ctx)
      \<longrightarrow> (\<exists>r. createCredentialResolve provider parent args ctx = Inr r))"
  by (simp add: createCredentialResolve_def isEqual_def)

theorem credential_resolve_permission_witness:
  "(isAdmin (credentials \<lparr>credentials = \<lparr>isAdmin = True, userID = ''u2''\<rparr>\<rparr>)
     \<or> userID (credentials \<lparr>credentials = \<lparr>isAdmin = True, userID = ''u2''\<rparr>\<rparr>)
        = node_id (node \<lparr>node = \<lparr>node_id = ''u1''\<rparr>, props = [''github'' \<mapsto> ''gh-record'']\<rparr>))
   \<and> createCredentialResolve ''github''
        \<lparr>node = \<lparr>node_id = ''u1''\<rparr>, props = [''github'' \<mapsto> ''gh-record'']\<rparr> ()
        \<lparr>credentials = \<lparr>isAdmin = True, userID = ''u2''\<rparr>\<rparr> = Inr (Some ''gh-record'')
   \<and> createCredentialResolve ''github''
        \<lparr>node = \<lparr>node_id = ''u1''\<rparr>, props = [''github'' \<mapsto> ''gh-record'']\<rparr> ()
        \<lparr>credentials = \<lparr>isAdmin = False, userID = ''u1''\<rparr>\<rparr> = Inr (Some ''gh-record'')
   \<and> \<not> isAdmin (credentials \<lparr>credentials = \<lparr>isAdmin = False, userID = ''u2''\<rparr>\<rparr>)
   \<and> userID (credentials \<lparr>credentials = \<lparr>isAdmin = False, userID = ''u2''\<rparr>\<rparr>)
        \<noteq> node_id (node \<lparr>node = \<lparr>node_id = ''u1''\<rparr>, props = [''github'' \<mapsto> ''gh-record'']\<rparr>)
   \<and> createCredentialResolve ''github''
        \<lparr>node = \<lparr>node_id = ''u1''\<rparr>, props = [''github'' \<mapsto> ''gh-record'']\<rparr> ()
        \<lparr>credentials = \<lparr>isAdmin = False, userID = ''u2''\<rparr>\<rparr>
       = Inl (UserError ''User lacks permissions to read nodes of type `User` with fields `credentials.github`.'')"
  using
    credential_resolve_permission
      [of "\<lparr>credentials = \<lparr>isAdmin = True, userID = ''u2''\<rparr>\<rparr>"
          "\<lparr>node = \<lparr>node_id = ''u1''\<rparr>, props = [''github'' \<mapsto> ''gh-record'']\<rparr>" "''github''" "()"]
    credential_resolve_permission
      [of "\<lparr>credentials = \<lparr>isAdmin = False, userID = ''u1''\<rparr>\<rparr>"
          "\<lparr>node = \<lparr>node_id = ''u1''\<rparr>, props = [''github'' \<mapsto> ''gh-record'']\<rparr>" "''github''" "()"]
    credential_resolve_permission
      [of "\<lparr>credentials = \<lparr>isAdmin = False, userID = ''u2''\<rparr>\<rparr>"
          "\<lparr>node = \<lparr>node_id = ''u1''\<rparr>, props = [''github'' \<mapsto> ''gh-record'']\<rparr>" "''github''" "()"]
  by simp

text \<open>
  C9. For an authorized caller the accessor returns \<open>parent[provider]\<close> without
  checking that the record holds a credential for the provider: when it holds none,
  the result is the absent value (\<open>None\<close>) and no error is raised.
\<close>

theorem credential_resolve_no_existence_check:
  assumes "isAdmin (credentials ctx) \<or> userID (credentials ctx) = node_id (node parent)"
  shows "createCredentialResolve provider parent args ctx = Inr (props parent provider)
         \<and> (props parent provider = None
              \<longrightarrow> createCredentialResolve provider parent args ctx = Inr None)"
  using assms by (simp add: createCredentialResolve_def isEqual_def)

theorem credential_resolve_no_existence_check_witness:
  "(isAdmin (credentials \<lparr>credentials = \<lparr>isAdmin = False, userID = ''u1''\<rparr>\<rparr>)
     \<or> userID (credentials \<lparr>credentials = \<lparr>isAdmin = False, userID = ''u1''\<rparr>\<rparr>)
        = node_id (node \<lparr>node = \<lparr>node_id = ''u1''\<rparr>, props = [''github'' \<mapsto> ''gh-record'']\<rparr>))
   \<and> props \<lparr>node = \<lparr>node_id = ''u1''\<rparr>, props = [''github'' \<mapsto> ''gh-record'']\<rparr> ''twitter'' = None
   \<and> createCredentialResolve ''twitter''
        \<lparr>node = \<lparr>node_id = ''u1''\<rparr>, props = [''github'' \<mapsto> ''gh-record'']\<rparr> ()
        \<lparr>credentials = \<lparr>isAdmin = False, userID = ''u1''\<rparr>\<rparr> = Inr None"
  using credential_resolve_no_existence_check
      [of "\<lparr>credentials = \<lparr>isAdmin = False, userID = ''u1''\<rparr>\<rparr>"
          "\<lparr>node = \<lparr>node_id = ''u1''\<rparr>, props = [''github'' \<mapsto> ''gh-record'']\<rparr>" "''twitter''" "()"]
  by simp

section \<open>Properties of the picture resolvers\<close>

text \<open>
  C7. For width and height arguments of type \<open>GraphQLInt\<close>, with \<open>sw\<close> and \<open>sh\<close>
  their decimal numerals, the Facebook picture resolver returns
  \<open>https://graph.facebook.com/v2.3/<parent.id>/picture\<close>, followed by
  \<open>?width=<sw>&height=<sh>\<close> when both arguments are given, by the one given
  argument alone when the other is missing, and by no query string when none is
  given. For \<open>parent.id = '123'\<close>, width 50 and height 50 the result is
  \<open>https://graph.facebook.com/v2.3/123/picture?width=50&height=50\<close>. Every integer
  has exactly one decimal numeral, by \<open>decimal_numeral_iff\<close>.
\<close>

theorem facebook_picture_url:
  assumes "is_safe_integer w" and "is_safe_integer h"
    and "is_decimal_numeral w sw" and "is_decimal_numeral h sh"
  shows "facebook_picture_resolve parent \<lparr>width = Some w, height = Some h\<rparr> =
           ''https://graph.facebook.com/v2.3/'' @ cred_id parent @ ''/picture'' @
           ''?width='' @ sw @ ''&height='' @ sh
         \<and> facebook_picture_resolve parent \<lparr>width = Some w, height = None\<rparr> =
           ''https://graph.facebook.com/v2.3/'' @ cred_id parent @ ''/picture'' @
           ''?width='' @ sw
         \<and> facebook_picture_resolve parent \<lparr>width = None, height = Some h\<rparr> =
           ''https://graph.facebook.com/v2.3/'' @ cred_id parent @ ''/picture'' @
           ''?height='' @ sh
         \<and> facebook_picture_resolve parent \<lparr>width = None, height = None\<rparr> =
           ''https://graph.facebook.com/v2.3/'' @ cred_id parent @ ''/picture''"
proof -
  from assms(3) have sw: "sw = number_to_string w" by (simp only: decimal_numeral_iff)
  from assms(4) have sh: "sh = number_to_string h" by (simp only: decimal_numeral_iff)
  show ?thesis
    by (simp add: facebook_picture_resolve_def Qs_stringify_def pick_width_height_def
        number_to_string_nonempty sw sh)
qed

theorem facebook_picture_url_witness:
  "is_safe_integer 50 \<and> is_decimal_numeral 50 ''50''
   \<and> facebook_picture_resolve \<lparr>cred_id = ''123'', picture = None\<rparr>
        \<lparr>width = Some 50, height = Some 50\<rparr> =
       ''https://graph.facebook.com/v2.3/123/picture?width=50&height=50''
   \<and> facebook_picture_resolve \<lparr>cred_id = ''123'', picture = None\<rparr>
        \<lparr>width = None, height = None\<rparr> =
       ''https://graph.facebook.com/v2.3/123/picture''"
proof -
  have s: "is_safe_integer 50"
    by (simp add: is_safe_integer_def)
  have n: "is_decimal_numeral 50 ''50''"
    by (simp add: is_decimal_numeral_def is_canonical_nat_def is_digit_def decimal_value_def)
  show ?thesis
    using s n
      facebook_picture_url [OF s s n n, of "\<lparr>cred_id = ''123'', picture = None\<rparr>"]
    by simp
qed

text \<open>
  C5. For a stored Twitter picture URL with the token \<open>_normal.\<close>, that is
  \<open>pre @ ''_normal.'' @ post\<close> where \<open>pre\<close> is the text before the token, the Twitter
  picture resolver returns the URL with the token replaced by \<open>_normal.\<close>,
  \<open>_bigger.\<close>, \<open>_mini.\<close> for the sizes \<open>normal\<close>, \<open>bigger\<close>, \<open>mini\<close>, and by
  \<open>.\<close> for the size \<open>original\<close>, which the declared default makes the size of a
  query that gives none. The stored
  \<open>http://pbs.twimg.com/profile_images/1/avatar_normal.png\<close> gives
  \<open>.../avatar_bigger.png\<close> for \<open>bigger\<close> and \<open>.../avatar.png\<close> for \<open>original\<close>.
  Every URL in which the token occurs has this form, by \<open>first_occurrence\<close>.
\<close>

theorem twitter_picture_replaces_token:
  assumes "picture parent = Some (pre @ ''_normal.'' @ post)"
    and "\<not> occurs ''_normal.'' pre"
  shows "twitter_picture_resolve parent (twitter_picture_args (Some normal)) =
           Some (pre @ ''_normal.'' @ post)
         \<and> twitter_picture_resolve parent (twitter_picture_args (Some bigger)) =
           Some (pre @ ''_bigger.'' @ post)
         \<and> twitter_picture_resolve parent (twitter_picture_args (Some mini)) =
           Some (pre @ ''_mini.'' @ post)
         \<and> twitter_picture_resolve parent (twitter_picture_args (Some original)) =
           Some (pre @ ''.'' @ post)
         \<and> twitter_picture_resolve parent (twitter_picture_args None) =
           Some (pre @ ''.'' @ post)"
proof -
  note p = assms(1)
  note r = replace_first_token [OF assms(2), of _ post]
  have d: "twitter_picture_args None = twitter_picture_args (Some original)"
    by (simp add: twitter_picture_args_def declared_default_def enum_of_value_def
        ReindexTwitterCredential_def getBaseCredentialFields_def)
  have a: "twitter_picture_resolve parent (twitter_picture_args (Some normal)) =
           Some (pre @ ''_normal.'' @ post)"
    using r [of "''_normal.''"]
    by (simp add: twitter_picture_resolve_def twitter_picture_args_def size_string_def p)
  have b: "twitter_picture_resolve parent (twitter_picture_args (Some bigger)) =
           Some (pre @ ''_bigger.'' @ post)"
    using r [of "''_bigger.''"]
    by (simp add: twitter_picture_resolve_def twitter_picture_args_def size_string_def p)
  have c: "twitter_picture_resolve parent (twitter_picture_args (Some mini)) =
           Some (pre @ ''_mini.'' @ post)"
    using r [of "''_mini.''"]
    by (simp add: twitter_picture_resolve_def twitter_picture_args_def size_string_def p)
  have e: "twitter_picture_resolve parent (twitter_picture_args (Some original)) =
           Some (pre @ ''.'' @ post)"
    using r [of "''.''"]
    by (simp add: twitter_picture_resolve_def twitter_picture_args_def size_string_def p)
  from a b c e d show ?thesis by simp
qed

theorem twitter_picture_replaces_token_witness:
  "picture \<lparr>cred_id = ''1'',
            picture = Some ''http://pbs.twimg.com/profile_images/1/avatar_normal.png''\<rparr>
     = Some (''http://pbs.twimg.com/profile_images/1/avatar'' @ ''_normal.'' @ ''png'')
   \<and> \<not> occurs ''_normal.'' ''http://pbs.twimg.com/profile_images/1/avatar''
   \<and> twitter_picture_resolve
        \<lparr>cred_id = ''1'',
         picture = Some ''http://pbs.twimg.com/profile_images/1/avatar_normal.png''\<rparr>
        (twitter_picture_args (Some bigger))
       = Some ''http://pbs.twimg.com/profile_images/1/avatar_bigger.png''
   \<and> twitter_picture_resolve
        \<lparr>cred_id = ''1'',
         picture = Some ''http://pbs.twimg.com/profile_images/1/avatar_normal.png''\<rparr>
        (twitter_picture_args (Some original))
       = Some ''http://pbs.twimg.com/profile_images/1/avatar.png''
   \<and> twitter_picture_resolve
        \<lparr>cred_id = ''1'',
         picture = Some ''http://pbs.twimg.com/profile_images/1/avatar_normal.png''\<rparr>
        (twitter_picture_args None)
       = Some ''http://pbs.twimg.com/profile_images/1/avatar.png''"
proof -
  have p: "picture \<lparr>cred_id = ''1'',
            picture = Some ''http://pbs.twimg.com/profile_images/1/avatar_normal.png''\<rparr>
     = Some (''http://pbs.twimg.com/profile_images/1/avatar'' @ ''_normal.'' @ ''png'')"
    by simp
  have n: "\<not> occurs ''_normal.'' ''http://pbs.twimg.com/profile_images/1/avatar''"
    by (simp add: starts_with_def)
  show ?thesis
    using p n twitter_picture_replaces_token [OF p n]
    by simp
qed

text \<open>
  C6, at the falsy values. For a stored picture that is the empty string the resolver
  returns \<open>null\<close> although a size is given; and for the size \<open>0\<close> it removes the
  \<open>sz\<close> parameter of \<open>https://lh3.googleusercontent.com/a/photo?sz=50\<close> where
  setting it would give \<open>sz=0\<close>.
\<close>

theorem google_picture_falsy_counterexample:
  "google_picture_resolve simple_parse simple_format
     \<lparr>cred_id = ''1'', picture = Some ''''\<rparr> \<lparr>google_size = Some 100\<rparr> = None
   \<and> google_picture_resolve simple_parse simple_format
       \<lparr>cred_id = ''1'', picture = Some ''https://lh3.googleusercontent.com/a/photo?sz=50''\<rparr>
       \<lparr>google_size = Some 0\<rparr>
     = Some ''https://lh3.googleusercontent.com/a/photo''"
  by (simp add: google_picture_resolve_def Let_def simple_parse_def simple_format_def
      simple_parse_query_def simple_stringify_def delete_property_def)

text \<open>
  C6, for non-empty URLs and non-zero sizes. For a stored Google picture URL that is not
  the empty string, the resolver with a size \<open>n \<noteq> 0\<close> returns the URL formatted from
  the parsed URL with \<open>search\<close> deleted and the query parameter \<open>sz\<close> set to \<open>n\<close>,
  the other query parameters as they were; with no size argument it returns the URL
  formatted from the parsed URL with \<open>search\<close> deleted and \<open>sz\<close> removed. With the
  simple instance of parser and formatter,
  \<open>https://lh3.googleusercontent.com/a/photo?sz=50\<close> and size 100 give
  \<open>https://lh3.googleusercontent.com/a/photo?sz=100\<close>, and no size gives
  \<open>https://lh3.googleusercontent.com/a/photo\<close>.
\<close>

theorem google_picture_sz:
  assumes "picture parent = Some url" and "url \<noteq> []"
  shows "(n \<noteq> 0 \<longrightarrow>
            google_picture_resolve Url_parse Url_format parent \<lparr>google_size = Some n\<rparr> =
              Some (Url_format ((Url_parse url)
                      \<lparr>query := set_property ''sz'' (Num n) (query (Url_parse url)),
                       search := None\<rparr>))
            \<and> map_of (set_property ''sz'' (Num n) (query (Url_parse url))) =
                (map_of (query (Url_parse url)))(''sz'' \<mapsto> Num n))
         \<and> google_picture_resolve Url_parse Url_format parent \<lparr>google_size = None\<rparr> =
              Some (Url_format ((Url_parse url)
                      \<lparr>query := delete_property ''sz'' (query (Url_parse url)),
                       search := None\<rparr>))
         \<and> map_of (delete_property ''sz'' (query (Url_parse url))) =
             (map_of (query (Url_parse url)))(''sz'' := None)"
  using assms
  by (simp add: google_picture_resolve_def Let_def map_of_set_property map_of_delete_property)

theorem google_picture_sz_witness:
  "picture \<lparr>cred_id = ''1'', picture = Some ''https://lh3.googleusercontent.com/a/photo?sz=50''\<rparr>
     = Some ''https://lh3.googleusercontent.com/a/photo?sz=50''
   \<and> ''https://lh3.googleusercontent.com/a/photo?sz=50'' \<noteq> []
   \<and> (100::int) \<noteq> 0
   \<and> google_picture_resolve simple_parse simple_format
        \<lparr>cred_id = ''1'', picture = Some ''https://lh3.googleusercontent.com/a/photo?sz=50''\<rparr>
        \<lparr>google_size = Some 100\<rparr>
       = Some ''https://lh3.googleusercontent.com/a/photo?sz=100''
   \<and> google_picture_resolve simple_parse simple_format
        \<lparr>cred_id = ''1'', picture = Some ''https://lh3.googleusercontent.com/a/photo?sz=50''\<rparr>
        \<lparr>google_size = None\<rparr>
       = Some ''https://lh3.googleusercontent.com/a/photo''"
proof -
  have s100: "number_to_string 100 = ''100''"
    by (simp add: number_to_string_def decimal_acc.simps digit_def)
  show ?thesis
    using google_picture_sz
      [of "\<lparr>cred_id = ''1'', picture = Some ''https://lh3.googleusercontent.com/a/photo?sz=50''\<rparr>"
          "''https://lh3.googleusercontent.com/a/photo?sz=50''" 100 simple_parse simple_format]
    by (simp add: simple_parse_def simple_format_def simple_parse_query_def
        simple_stringify_def delete_property_def s100)
qed

text \<open>
  C10. The Google picture resolver decides on the truthiness of the size argument, not
  on its presence: for every parent record the size \<open>0\<close> gives the result of a
  missing size argument. For a stored URL (a non-empty string) this result is the URL
  formatted from the parsed URL with \<open>sz\<close> removed from the query, where setting
  would have stored \<open>sz = 0\<close>.
\<close>

theorem google_picture_zero_size_like_absent:
  "google_picture_resolve Url_parse Url_format parent \<lparr>google_size = Some 0\<rparr> =
     google_picture_resolve Url_parse Url_format parent \<lparr>google_size = None\<rparr>
   \<and> (picture parent = Some url \<and> url \<noteq> [] \<longrightarrow>
        google_picture_resolve Url_parse Url_format parent \<lparr>google_size = Some 0\<rparr> =
          Some (Url_format ((Url_parse url)
                  \<lparr>query := delete_property ''sz'' (query (Url_parse url)),
                   search := None\<rparr>))
        \<and> map_of (delete_property ''sz'' (query (Url_parse url))) ''sz'' = None
        \<and> map_of (set_property ''sz'' (Num 0) (query (Url_parse url))) ''sz'' = Some (Num 0))"
  by (simp add: google_picture_resolve_def Let_def map_of_set_property map_of_delete_property
      split: option.splits)

theorem google_picture_zero_size_like_absent_witness:
  "picture \<lparr>cred_id = ''1'', picture = Some ''https://lh3.googleusercontent.com/a/photo?sz=50''\<rparr>
     = Some ''https://lh3.googleusercontent.com/a/photo?sz=50''
   \<and> ''https://lh3.googleusercontent.com/a/photo?sz=50'' \<noteq> []
   \<and> google_picture_resolve simple_parse simple_format
        \<lparr>cred_id = ''1'', picture = Some ''https://lh3.googleusercontent.com/a/photo?sz=50''\<rparr>
        \<lparr>google_size = Some 0\<rparr>
       = Some ''https://lh3.googleusercontent.com/a/photo''"
  using google_picture_zero_size_like_absent
      [of simple_parse simple_format
          "\<lparr>cred_id = ''1'', picture = Some ''https://lh3.googleusercontent.com/a/photo?sz=50''\<rparr>"
          "''https://lh3.googleusercontent.com/a/photo?sz=50''"]
  by (auto simp add: simple_parse_def simple_format_def simple_parse_query_def
      simple_stringify_def delete_property_def)

end
